theory Spec2Isabelle
  imports Main "HOL-Library.AList"
begin

section \<open>Data model\<close>

text \<open>
  Times are readings of \<^verbatim>\<open>datetime.utcnow()\<close>, in whole milliseconds. The clock is an
  input of the model: a function from the number of readings taken so far to the reading,
  so that every call of \<^verbatim>\<open>utcnow()\<close> in the source is one reading in the model.
\<close>

type_synonym time = int

type_synonym clock = "nat \<Rightarrow> time"

definition utcnow :: "clock \<Rightarrow> nat \<Rightarrow> time \<times> nat" where
  "utcnow now k = (now k, Suc k)"

text \<open>Opaque JSON payloads (tool input, system data) are carried as their text.\<close>

type_synonym payload = string

subsection \<open>Exceptions\<close>

text \<open>
  The exception classes the server distinguishes: \<^verbatim>\<open>ValueError\<close> and \<^verbatim>\<open>RuntimeError\<close>
  (raised by the session manager), \<^verbatim>\<open>asyncio.TimeoutError\<close> (raised by
  \<^verbatim>\<open>asyncio.wait_for\<close>), \<^verbatim>\<open>KeyError\<close>, and any other subclass of \<^verbatim>\<open>Exception\<close>,
  which carries its message.
\<close>

datatype exn =
    ValueError string
  | RuntimeError string
  | TimeoutError
  | KeyError string
  | OtherError string

fun str_exn :: "exn \<Rightarrow> string" where
  "str_exn (ValueError m) = m"
| "str_exn (RuntimeError m) = m"
| "str_exn TimeoutError = []"
| "str_exn (KeyError k) = [CHR 0x27] @ k @ [CHR 0x27]"
| "str_exn (OtherError m) = m"

text \<open>\<^verbatim>\<open>str()\<close> of an integer, as an f-string formats it.\<close>

definition digit_char :: "nat \<Rightarrow> char" where
  "digit_char d = ''0123456789'' ! d"

fun str_nat :: "nat \<Rightarrow> string" where
  "str_nat n = (if n < 10 then [digit_char n]
                else str_nat (n div 10) @ [digit_char (n mod 10)])"

declare str_nat.simps [simp del]

definition str_int :: "int \<Rightarrow> string" where
  "str_int i = (if i < 0 then CHR ''-'' # str_nat (nat (- i)) else str_nat (nat i))"

subsection \<open>models.py\<close>

datatype task_status = PENDING | RUNNING | COMPLETED | FAILED | INTERRUPTED

datatype session_status = ACTIVE | IDLE | TERMINATED

record task_progress =
  turns :: int
  tokens_used :: int
  tokens_input :: int
  tokens_output :: int
  files_modified :: int
  elapsed_time_ms :: int

text \<open>\<^verbatim>\<open>TaskProgress()\<close>: every field defaults to 0.\<close>

definition TaskProgress :: task_progress where
  "TaskProgress = \<lparr>turns = 0, tokens_used = 0, tokens_input = 0, tokens_output = 0,
                   files_modified = 0, elapsed_time_ms = 0\<rparr>"

text \<open>\<^verbatim>\<open>TaskResult\<close>; its field \<^verbatim>\<open>total_cost_usd\<close> is never set by the server and is left out.\<close>

record task_result =
  exit_code :: int
  summary :: "string option"
  errors :: "string list"

datatype event_type = MESSAGE | TOOL_USE | TOOL_RESULT | PROGRESS | COMPLETE | ERROR

subsection \<open>Messages of the agent SDK\<close>

text \<open>
  An item of a tool result's content list: a dict whose \<^verbatim>\<open>"type"\<close> is \<^verbatim>\<open>"text"\<close>, with its
  \<^verbatim>\<open>"text"\<close> entry when it has one, or anything else.
\<close>

datatype content_item = TextItem "string option" | OtherItem

datatype tool_content = ContentStr string | ContentList "content_item list" | ContentNone

datatype content_block =
    TextBlock string
  | ThinkingBlock string string
  | ToolUseBlock string string payload
  | ToolResultBlock string tool_content "bool option"
  | OtherBlock

text \<open>A user message's content is a string, or something else of which only \<^verbatim>\<open>str()\<close> is used.\<close>

datatype user_content = UserStr string | UserOther string

text \<open>
  \<^verbatim>\<open>ResultMessage\<close>: \<^verbatim>\<open>usage\<close> (a dict or \<^verbatim>\<open>None\<close>), \<^verbatim>\<open>num_turns\<close>, \<^verbatim>\<open>duration_ms\<close>,
  \<^verbatim>\<open>is_error\<close>.
\<close>

datatype message =
    AssistantMessage "content_block list" string
  | UserMessage user_content
  | SystemMessage string payload
  | ResultMessage "(string \<times> int) list option" int int bool
  | OtherMessage

fun is_ResultMessage :: "message \<Rightarrow> bool" where
  "is_ResultMessage (ResultMessage u n d e) = True"
| "is_ResultMessage m = False"

subsection \<open>Events\<close>

text \<open>
  The \<^verbatim>\<open>data\<close> of an event: the dict built by the emitting method, or the
  \<^verbatim>\<open>TaskProgress\<close> / \<^verbatim>\<open>TaskResult\<close> snapshot that \<^verbatim>\<open>model_dump()\<close> copies.
\<close>

datatype event_data =
    AssistantData string string
  | ThinkingData string string
  | UserData string
  | SystemData string payload
  | ToolUseData string string payload
  | ToolResultData string tool_content "bool option"
  | ProgressData task_progress
  | CompleteData task_result
  | ErrorData string

record event =
  etype :: event_type
  timestamp :: time
  edata :: event_data

subsection \<open>The agent client\<close>

text \<open>
  \<^verbatim>\<open>ClaudeSDKClient\<close> is external. A client value records whether it is connected and how
  its calls behave: \<^verbatim>\<open>connect\<close>, \<^verbatim>\<open>interrupt\<close> and \<^verbatim>\<open>disconnect\<close> return or raise;
  \<^verbatim>\<open>query\<close> returns, raises, or does not return before the deadline of the enclosing
  \<^verbatim>\<open>wait_for\<close>; \<^verbatim>\<open>receive_response\<close> yields \<open>response\<close> and then is exhausted, raises,
  or yields nothing more before the deadline.
\<close>

datatype call_outcome = Returns | Fails exn | NeverReturns

datatype stream_end = Exhausted | Raises exn | Hangs

record client =
  connected :: bool
  connect_raises :: "exn option"
  query_outcome :: call_outcome
  response :: "message list"
  response_end :: stream_end
  interrupt_raises :: "exn option"
  disconnect_raises :: "exn option"

definition connect :: "client \<Rightarrow> exn + client" where
  "connect c = (case connect_raises c of
                  Some e \<Rightarrow> Inl e
                | None \<Rightarrow> Inr (c\<lparr>connected := True\<rparr>))"

definition disconnect :: "client \<Rightarrow> exn + client" where
  "disconnect c = (case disconnect_raises c of
                     Some e \<Rightarrow> Inl e
                   | None \<Rightarrow> Inr (c\<lparr>connected := False\<rparr>))"

definition interrupt :: "client \<Rightarrow> exn + client" where
  "interrupt c = (case interrupt_raises c of
                    Some e \<Rightarrow> Inl e
                  | None \<Rightarrow> Inr c)"

subsection \<open>config.py\<close>

record config =
  max_concurrent :: int
  idle_timeout_seconds :: int
  cleanup_interval_seconds :: int
  default_timeout_seconds :: int
  max_queue_size :: int
  default_allowed_tools :: "string list"
  default_permission_mode :: string
  default_max_turns :: int
  default_model :: "string option"
  anthropic_api_key :: string

text \<open>The defaults of config.py, with the API key that the environment must supply.\<close>

definition default_config :: "string \<Rightarrow> config" where
  "default_config key =
     \<lparr>max_concurrent = 10, idle_timeout_seconds = 1800, cleanup_interval_seconds = 300,
      default_timeout_seconds = 3600, max_queue_size = 100,
      default_allowed_tools = [''Read'', ''Write'', ''Edit'', ''Bash''],
      default_permission_mode = ''acceptEdits'', default_max_turns = 50,
      default_model = None, anthropic_api_key = key\<rparr>"

section \<open>session_manager.py: Session\<close>

record agent_options =
  allowed_tools :: "string list"
  permission_mode :: string
  max_turns :: "int option"
  model :: "string option"
  cwd :: string
  env :: "(string \<times> string) list"

text \<open>
  A queue made by \<^verbatim>\<open>asyncio.Queue()\<close> has \<^verbatim>\<open>maxsize = 0\<close>: it is unbounded, and \<^verbatim>\<open>put\<close>
  appends at once. It is the list of its undrained events, oldest first.
\<close>

record session =
  session_id :: string
  workspace :: string
  options :: agent_options
  client :: client
  status :: session_status
  tasks :: "string list"
  created_at :: time
  last_activity :: time
  event_queues :: "string \<rightharpoonup> event list"

text \<open>\<^verbatim>\<open>Session.__init__\<close> reads the clock twice.\<close>

definition Session :: "clock \<Rightarrow> string \<Rightarrow> string \<Rightarrow> agent_options \<Rightarrow> client \<Rightarrow> nat \<Rightarrow> session \<times> nat" where
  "Session now sid ws opts c k =
     (let (t1, k1) = utcnow now k;
          (t2, k2) = utcnow now k1
      in (\<lparr>session_id = sid, workspace = ws, options = opts, client = c, status = ACTIVE,
           tasks = [], created_at = t1, last_activity = t2, event_queues = Map.empty\<rparr>, k2))"

text \<open>
  \<^verbatim>\<open>add_task\<close> and \<^verbatim>\<open>remove_task\<close> read the clock once; the caller hands them that
  reading as \<open>t\<close>.
\<close>

definition add_task :: "time \<Rightarrow> string \<Rightarrow> session \<Rightarrow> session" where
  "add_task t task_id s = s\<lparr>tasks := tasks s @ [task_id], last_activity := t\<rparr>"

text \<open>\<^verbatim>\<open>list.remove\<close> deletes the first occurrence.\<close>

definition remove_task :: "time \<Rightarrow> string \<Rightarrow> session \<Rightarrow> session" where
  "remove_task t task_id s =
     (if task_id \<in> set (tasks s)
      then s\<lparr>tasks := remove1 task_id (tasks s), last_activity := t\<rparr>
      else s\<lparr>last_activity := t\<rparr>)"

definition subscribe_task :: "string \<Rightarrow> session \<Rightarrow> event list \<times> session" where
  "subscribe_task task_id s =
     (let s1 = (if event_queues s task_id = None
                then s\<lparr>event_queues := (event_queues s)(task_id \<mapsto> [])\<rparr>
                else s)
      in (case event_queues s1 task_id of Some q \<Rightarrow> q | None \<Rightarrow> [], s1))"

definition unsubscribe_task :: "string \<Rightarrow> session \<Rightarrow> session" where
  "unsubscribe_task task_id s =
     (if event_queues s task_id \<noteq> None
      then s\<lparr>event_queues := (event_queues s)(task_id := None)\<rparr>
      else s)"

text \<open>
  The executor passes its \<^verbatim>\<open>self.task_id\<close>, which is \<^verbatim>\<open>None\<close> until \<^verbatim>\<open>execute\<close> sets
  it; \<^verbatim>\<open>None\<close> is a key of no queue.
\<close>

definition publish_event :: "string option \<Rightarrow> event \<Rightarrow> session \<Rightarrow> session" where
  "publish_event task_id ev s =
     (case task_id of
        None \<Rightarrow> s
      | Some tid \<Rightarrow>
          (case event_queues s tid of
             None \<Rightarrow> s
           | Some q \<Rightarrow> s\<lparr>event_queues := (event_queues s)(tid \<mapsto> q @ [ev])\<rparr>))"

text \<open>\<^verbatim>\<open>is_idle\<close> reads the clock only when the session has no task.\<close>

definition is_idle :: "clock \<Rightarrow> int \<Rightarrow> session \<Rightarrow> nat \<Rightarrow> bool \<times> nat" where
  "is_idle now idle_timeout s k =
     (if length (tasks s) > 0 then (False, k)
      else (let (t, k1) = utcnow now k
            in (t - last_activity s > 1000 * idle_timeout, k1)))"

section \<open>task_executor.py: TaskExecutor\<close>

text \<open>
  The executor's \<^verbatim>\<open>self.client\<close> is the session's client, read as \<open>client (session ex)\<close>.
  \<open>clock_reads\<close> is the number of clock readings taken so far. Method names lose their
  leading underscore. Log calls change nothing in the executor and are left out.
\<close>

record executor =
  session :: session
  task_id :: "string option"
  progress :: task_progress
  start_time :: "time option"
  clock_reads :: nat

definition TaskExecutor :: "session \<Rightarrow> nat \<Rightarrow> executor" where
  "TaskExecutor s k =
     \<lparr>session = s, task_id = None, progress = TaskProgress, start_time = None,
      clock_reads = k\<rparr>"

text \<open>
  What every emitting method ends with: build the event with a fresh timestamp and hand
  it to \<^verbatim>\<open>session.publish_event(self.task_id, ...)\<close>.
\<close>

definition emit :: "clock \<Rightarrow> event_type \<Rightarrow> event_data \<Rightarrow> executor \<Rightarrow> executor" where
  "emit now ty d ex =
     (let (t, k) = utcnow now (clock_reads ex)
      in ex\<lparr>clock_reads := k,
            session := publish_event (task_id ex)
                         \<lparr>etype = ty, timestamp = t, edata = d\<rparr> (session ex)\<rparr>)"

definition emit_message :: "clock \<Rightarrow> event_data \<Rightarrow> executor \<Rightarrow> executor" where
  "emit_message now d ex = emit now MESSAGE d ex"

definition emit_tool_use :: "clock \<Rightarrow> string \<Rightarrow> string \<Rightarrow> payload \<Rightarrow> executor \<Rightarrow> executor" where
  "emit_tool_use now tool_id tool_name tool_input ex =
     emit now TOOL_USE (ToolUseData tool_id tool_name tool_input) ex"

text \<open>\<^verbatim>\<open>str.lower()\<close> on ASCII letters, and the substring test \<^verbatim>\<open>needle in text\<close>.\<close>

definition lower_char :: "char \<Rightarrow> char" where
  "lower_char c = (let n = (of_char c :: nat)
                   in if 65 \<le> n \<and> n \<le> 90 then char_of (n + 32) else c)"

definition lower :: "string \<Rightarrow> string" where
  "lower s = map lower_char s"

fun starts_with :: "string \<Rightarrow> string \<Rightarrow> bool" where
  "starts_with [] text = True"
| "starts_with (c # cs) [] = False"
| "starts_with (c # cs) (d # ds) = (c = d \<and> starts_with cs ds)"

fun contains :: "string \<Rightarrow> string \<Rightarrow> bool" where
  "contains needle [] = (needle = [])"
| "contains needle (d # ds) = (starts_with needle (d # ds) \<or> contains needle ds)"

fun counts_as_modified :: "content_item \<Rightarrow> bool" where
  "counts_as_modified (TextItem t) =
     (let text = (case t of Some x \<Rightarrow> x | None \<Rightarrow> [])
      in contains ''written successfully'' (lower text) \<or> contains ''modified'' (lower text))"
| "counts_as_modified OtherItem = False"

definition emit_tool_result ::
    "clock \<Rightarrow> string \<Rightarrow> tool_content \<Rightarrow> bool option \<Rightarrow> executor \<Rightarrow> executor" where
  "emit_tool_result now tool_use_id content is_error ex =
     (let ex1 = emit now TOOL_RESULT (ToolResultData tool_use_id content is_error) ex
      in (case content of
            ContentList items \<Rightarrow>
              ex1\<lparr>progress := (progress ex1)
                     \<lparr>files_modified := files_modified (progress ex1)
                        + int (length (filter counts_as_modified items))\<rparr>\<rparr>
          | _ \<Rightarrow> ex1))"

text \<open>
  \<^verbatim>\<open>if self.start_time:\<close> holds for every datetime, so the elapsed time is recomputed
  from the clock whenever the start time is set. With readings in whole milliseconds,
  \<^verbatim>\<open>int(elapsed * 1000)\<close> is the difference of the two readings; the rounding of the
  float product is not modelled.
\<close>

definition emit_progress :: "clock \<Rightarrow> executor \<Rightarrow> executor" where
  "emit_progress now ex =
     (let ex1 = (case start_time ex of
                   None \<Rightarrow> ex
                 | Some st \<Rightarrow>
                     (let (t, k) = utcnow now (clock_reads ex)
                      in ex\<lparr>clock_reads := k,
                            progress := (progress ex)\<lparr>elapsed_time_ms := t - st\<rparr>\<rparr>))
      in emit now PROGRESS (ProgressData (progress ex1)) ex1)"

definition emit_error :: "clock \<Rightarrow> string \<Rightarrow> executor \<Rightarrow> executor" where
  "emit_error now err ex = emit now ERROR (ErrorData err) ex"

text \<open>An absent \<^verbatim>\<open>error\<close> is formatted as \<^verbatim>\<open>None\<close>; an empty one is falsy.\<close>

definition complete_task :: "clock \<Rightarrow> bool \<Rightarrow> string option \<Rightarrow> executor \<Rightarrow> executor" where
  "complete_task now success err ex =
     (let result =
            \<lparr>exit_code = (if success then 0 else 1),
             summary = Some (if success then ''Task completed successfully''
                             else ''Task failed: '' @ (case err of Some e \<Rightarrow> e | None \<Rightarrow> ''None'')),
             errors = (case err of
                         Some e \<Rightarrow> if e \<noteq> [] then [e] else []
                       | None \<Rightarrow> [])\<rparr>
      in emit now COMPLETE (CompleteData result) ex)"

fun handle_block :: "clock \<Rightarrow> string \<Rightarrow> content_block \<Rightarrow> executor \<Rightarrow> executor" where
  "handle_block now mdl (TextBlock text) ex = emit_message now (AssistantData text mdl) ex"
| "handle_block now mdl (ThinkingBlock thinking signature) ex =
     emit_message now (ThinkingData thinking signature) ex"
| "handle_block now mdl (ToolUseBlock tool_id tool_name tool_input) ex =
     emit_tool_use now tool_id tool_name tool_input ex"
| "handle_block now mdl (ToolResultBlock tool_use_id content is_error) ex =
     emit_tool_result now tool_use_id content is_error ex"
| "handle_block now mdl OtherBlock ex = ex"

definition handle_assistant_message ::
    "clock \<Rightarrow> content_block list \<Rightarrow> string \<Rightarrow> executor \<Rightarrow> executor" where
  "handle_assistant_message now content mdl ex =
     (let ex1 = ex\<lparr>progress := (progress ex)\<lparr>turns := turns (progress ex) + 1\<rparr>\<rparr>
      in emit_progress now (fold (handle_block now mdl) content ex1))"

definition handle_user_message :: "clock \<Rightarrow> user_content \<Rightarrow> executor \<Rightarrow> executor" where
  "handle_user_message now content ex =
     emit_message now (UserData (case content of UserStr s \<Rightarrow> s | UserOther s \<Rightarrow> s)) ex"

definition handle_system_message :: "clock \<Rightarrow> string \<Rightarrow> payload \<Rightarrow> executor \<Rightarrow> executor" where
  "handle_system_message now subtype data ex = emit_message now (SystemData subtype data) ex"

fun handle_message :: "clock \<Rightarrow> message \<Rightarrow> executor \<Rightarrow> executor" where
  "handle_message now (AssistantMessage content mdl) ex =
     handle_assistant_message now content mdl ex"
| "handle_message now (UserMessage content) ex = handle_user_message now content ex"
| "handle_message now (SystemMessage subtype data) ex = handle_system_message now subtype data ex"
| "handle_message now (ResultMessage u n d e) ex = ex"
| "handle_message now OtherMessage ex = ex"

text \<open>\<^verbatim>\<open>usage.get(key, 0)\<close> on the usage dict.\<close>

definition usage_get :: "(string \<times> int) list \<Rightarrow> string \<Rightarrow> int" where
  "usage_get u key = (case map_of u key of Some v \<Rightarrow> v | None \<Rightarrow> 0)"

fun handle_result :: "clock \<Rightarrow> message \<Rightarrow> executor \<Rightarrow> executor" where
  "handle_result now (ResultMessage usage num_turns duration_ms is_error) ex =
     (let p1 = (case usage of
                  None \<Rightarrow> progress ex
                | Some u \<Rightarrow>
                    if u = [] then progress ex
                    else (progress ex)\<lparr>tokens_used := usage_get u ''total_tokens'',
                                        tokens_input := usage_get u ''input_tokens'',
                                        tokens_output := usage_get u ''output_tokens''\<rparr>);
          p2 = p1\<lparr>turns := num_turns, elapsed_time_ms := duration_ms\<rparr>
      in emit_progress now (ex\<lparr>progress := p2\<rparr>))"
| "handle_result now m ex = ex"

text \<open>
  How a run of \<^verbatim>\<open>_execute_task\<close> under \<^verbatim>\<open>asyncio.wait_for\<close> ends: it returns, it raises,
  or it is cancelled at the await that did not complete before the deadline.
\<close>

datatype task_outcome = Finished | Raised exn | Cancelled

text \<open>The \<^verbatim>\<open>async for\<close> loop over \<^verbatim>\<open>receive_response()\<close>, which breaks at a result message.\<close>

fun receive_loop :: "clock \<Rightarrow> message list \<Rightarrow> stream_end \<Rightarrow> executor \<Rightarrow> task_outcome \<times> executor" where
  "receive_loop now [] end ex =
     (case end of
        Exhausted \<Rightarrow> (Finished, ex)
      | Raises e \<Rightarrow> (Raised e, ex)
      | Hangs \<Rightarrow> (Cancelled, ex))"
| "receive_loop now (m # ms) end ex =
     (let ex1 = handle_message now m ex
      in if is_ResultMessage m then (Finished, handle_result now m ex1)
         else receive_loop now ms end ex1)"

definition execute_task :: "clock \<Rightarrow> string \<Rightarrow> executor \<Rightarrow> task_outcome \<times> executor" where
  "execute_task now prompt ex =
     (case query_outcome (client (session ex)) of
        Fails e \<Rightarrow> (Raised e, ex)
      | NeverReturns \<Rightarrow> (Cancelled, ex)
      | Returns \<Rightarrow>
          (case receive_loop now (response (client (session ex)))
                  (response_end (client (session ex))) ex of
             (Finished, ex1) \<Rightarrow> (Finished, complete_task now True None ex1)
           | (r, ex1) \<Rightarrow> (r, ex1)))"

text \<open>
  \<^verbatim>\<open>asyncio.wait_for\<close>: the exception that reaches \<^verbatim>\<open>execute\<close>, if any. A cancelled
  run surfaces as \<^verbatim>\<open>TimeoutError\<close>.
\<close>

fun wait_for :: "task_outcome \<Rightarrow> exn option" where
  "wait_for Finished = None"
| "wait_for (Raised e) = Some e"
| "wait_for Cancelled = Some TimeoutError"

text \<open>
  \<^verbatim>\<open>execute\<close>. Whether the deadline passes is part of the agent's behaviour (a call or
  a stream that does not deliver in time), so the value of \<open>timeout\<close> only names the
  deadline; \<open>prompt\<close> is handed to the agent. The \<^verbatim>\<open>finally\<close> clause removes the
  task from the session on every path.
\<close>

definition execute :: "clock \<Rightarrow> string \<Rightarrow> string \<Rightarrow> int \<Rightarrow> executor \<Rightarrow> executor" where
  "execute now tid prompt timeout ex =
     (let (t0, k0) = utcnow now (clock_reads ex);
          ex1 = ex\<lparr>task_id := Some tid, start_time := Some t0, clock_reads := k0\<rparr>;
          (r, ex2) = execute_task now prompt ex1;
          ex3 = (case wait_for r of
                   None \<Rightarrow> ex2
                 | Some e \<Rightarrow>
                     if e = TimeoutError
                     then complete_task now False (Some ''Timeout'')
                            (emit_error now ''Task execution timed out'' ex2)
                     else complete_task now False (Some (str_exn e))
                            (emit_error now (str_exn e) ex2));
          (t4, k4) = utcnow now (clock_reads ex3)
      in ex3\<lparr>clock_reads := k4, session := remove_task t4 tid (session ex3)\<rparr>)"

section \<open>session_manager.py: SessionManager\<close>

text \<open>
  The session table is a Python dict: an association list with distinct keys, in insertion
  order. \<^verbatim>\<open>d[k] = v\<close> is \<open>AList.update\<close>, \<^verbatim>\<open>del d[k]\<close> is \<open>AList.delete\<close>, \<^verbatim>\<open>k in d\<close> is
  \<open>map_of d k \<noteq> None\<close>. The manager's log is the list of records its logger received.
  Every method body runs under the manager's lock, so it is one atomic step.
\<close>

datatype log_level = LOG_INFO | LOG_ERROR

record session_manager =
  sessions :: "(string \<times> session) list"
  logged :: "(log_level \<times> string) list"
  manager_clock_reads :: nat

definition logger :: "log_level \<Rightarrow> string \<Rightarrow> session_manager \<Rightarrow> session_manager" where
  "logger lvl msg m = m\<lparr>logged := logged m @ [(lvl, msg)]\<rparr>"

text \<open>\<^verbatim>\<open>Path(workspace).resolve()\<close> and \<^verbatim>\<open>Path.exists()\<close> read the file system.\<close>

record filesystem =
  resolve :: "string \<Rightarrow> string"
  path_exists :: "string \<Rightarrow> bool"

text \<open>The \<^verbatim>\<open>options\<close> dict of \<^verbatim>\<open>create_session\<close>: \<open>None\<close> is a missing key.\<close>

record options_dict =
  opt_allowed_tools :: "string list option"
  opt_permission_mode :: "string option"
  opt_max_turns :: "int option option"
  opt_model :: "string option option"

definition dict_get :: "'a option \<Rightarrow> 'a \<Rightarrow> 'a" where
  "dict_get entry dflt = (case entry of Some v \<Rightarrow> v | None \<Rightarrow> dflt)"

text \<open>The block of \<^verbatim>\<open>create_session\<close> that builds the \<^verbatim>\<open>ClaudeAgentOptions\<close>.\<close>

definition build_options :: "config \<Rightarrow> string \<Rightarrow> options_dict \<Rightarrow> agent_options" where
  "build_options cfg workspace_path opts =
     \<lparr>allowed_tools = dict_get (opt_allowed_tools opts) (default_allowed_tools cfg),
      permission_mode = dict_get (opt_permission_mode opts) (default_permission_mode cfg),
      max_turns = dict_get (opt_max_turns opts) (Some (default_max_turns cfg)),
      model = dict_get (opt_model opts) (default_model cfg),
      cwd = workspace_path,
      env = [(''ANTHROPIC_API_KEY'', anthropic_api_key cfg)]\<rparr>"

text \<open>
  \<open>new_client\<close> stands for the constructor \<^verbatim>\<open>ClaudeSDKClient(options=...)\<close>: the client,
  not yet connected, that the SDK builds for these options.
\<close>

definition create_session ::
    "config \<Rightarrow> filesystem \<Rightarrow> clock \<Rightarrow> (agent_options \<Rightarrow> client) \<Rightarrow>
     string \<Rightarrow> string \<Rightarrow> options_dict \<Rightarrow> session_manager \<Rightarrow> (exn + session) \<times> session_manager" where
  "create_session cfg fs now new_client sid ws opts m =
     (if map_of (sessions m) sid \<noteq> None
      then (Inl (ValueError (''Session '' @ sid @ '' already exists'')), m)
      else if int (length (sessions m)) \<ge> max_concurrent cfg
      then (Inl (RuntimeError (''Maximum concurrent sessions (''
                                @ str_int (max_concurrent cfg) @ '') reached'')), m)
      else
        (let workspace_path = resolve fs ws
         in if \<not> path_exists fs workspace_path
            then (Inl (ValueError (''Workspace directory does not exist: '' @ ws)), m)
            else
              (let claude_options = build_options cfg workspace_path opts;
                   c = new_client claude_options
               in (case connect c of
                     Inl e \<Rightarrow>
                       (Inl e, logger LOG_ERROR (''Failed to connect to Claude SDK: '' @ str_exn e) m)
                   | Inr c1 \<Rightarrow>
                       (let m1 = logger LOG_INFO (''Connected to Claude SDK for session: '' @ sid) m;
                            (s, k) = Session now sid workspace_path claude_options c1
                                       (manager_clock_reads m1);
                            m2 = m1\<lparr>sessions := AList.update sid s (sessions m1),
                                    manager_clock_reads := k\<rparr>;
                            m3 = logger LOG_INFO (''Created session: '' @ sid @ '' (total: ''
                                                  @ str_nat (length (sessions m2)) @ '')'') m2
                        in (Inr s, m3))))))"

definition get_session :: "string \<Rightarrow> session_manager \<Rightarrow> session option" where
  "get_session sid m = map_of (sessions m) sid"

definition delete_session :: "string \<Rightarrow> session_manager \<Rightarrow> (exn + unit) \<times> session_manager" where
  "delete_session sid m =
     (case map_of (sessions m) sid of
        None \<Rightarrow> (Inl (ValueError (''Session '' @ sid @ '' not found'')), m)
      | Some s \<Rightarrow>
          (let m1 = (case disconnect (client s) of
                       Inl e \<Rightarrow> logger LOG_ERROR (''Error disconnecting session '' @ sid @ '': ''
                                                  @ str_exn e) m
                     | Inr c1 \<Rightarrow> logger LOG_INFO (''Disconnected session: '' @ sid) m);
               m2 = m1\<lparr>sessions := AList.delete sid (sessions m1)\<rparr>;
               m3 = logger LOG_INFO (''Deleted session: '' @ sid @ '' (remaining: ''
                                     @ str_nat (length (sessions m2)) @ '')'') m2
           in (Inr (), m3)))"

text \<open>The list comprehension of \<^verbatim>\<open>_cleanup_idle_sessions\<close>, in table order.\<close>

fun idle_sessions_of ::
    "clock \<Rightarrow> int \<Rightarrow> (string \<times> session) list \<Rightarrow> nat \<Rightarrow> string list \<times> nat" where
  "idle_sessions_of now idle_timeout [] k = ([], k)"
| "idle_sessions_of now idle_timeout ((sid, s) # rest) k =
     (let (idle, k1) = is_idle now idle_timeout s k;
          (ids, k2) = idle_sessions_of now idle_timeout rest k1
      in (if idle then sid # ids else ids, k2))"

text \<open>
  One iteration of the loop over the idle sessions: the lookup, the disconnect and the
  deletion are inside one \<^verbatim>\<open>try\<close>, whose handler only logs.
\<close>

definition cleanup_one :: "string \<Rightarrow> session_manager \<Rightarrow> session_manager" where
  "cleanup_one sid m =
     (case map_of (sessions m) sid of
        None \<Rightarrow> logger LOG_ERROR (''Error cleaning up session '' @ sid @ '': ''
                                  @ str_exn (KeyError sid)) m
      | Some s \<Rightarrow>
          (case disconnect (client s) of
             Inl e \<Rightarrow> logger LOG_ERROR (''Error cleaning up session '' @ sid @ '': ''
                                        @ str_exn e) m
           | Inr c1 \<Rightarrow> logger LOG_INFO (''Cleaned up idle session: '' @ sid)
                         (m\<lparr>sessions := AList.delete sid (sessions m)\<rparr>)))"

definition cleanup_idle_sessions :: "config \<Rightarrow> clock \<Rightarrow> session_manager \<Rightarrow> session_manager" where
  "cleanup_idle_sessions cfg now m =
     (let (idle_sessions, k) = idle_sessions_of now (idle_timeout_seconds cfg) (sessions m)
                                 (manager_clock_reads m);
          m1 = fold cleanup_one idle_sessions (m\<lparr>manager_clock_reads := k\<rparr>)
      in if idle_sessions \<noteq> []
         then logger LOG_INFO (''Cleaned up '' @ str_nat (length idle_sessions)
                               @ '' idle sessions (remaining: ''
                               @ str_nat (length (sessions m1)) @ '')'') m1
         else m1)"

section \<open>server.py\<close>

text \<open>
  An entry of \<^verbatim>\<open>running_tasks\<close>: its \<^verbatim>\<open>"session_id"\<close>, \<^verbatim>\<open>"status"\<close> and \<^verbatim>\<open>"created_at"\<close>.
  The background task handle and the executor reference are not part of the model, nor is
  the server's logger.
\<close>

record task_info =
  info_session_id :: string
  info_status :: task_status
  info_created_at :: time

record server =
  running_tasks :: "string \<rightharpoonup> task_info"
  manager :: session_manager
  server_clock_reads :: nat

datatype http_exception = HTTPException int string

record interrupt_response =
  response_task_id :: string
  response_status :: task_status
  interrupted_at :: time

definition interrupt_task ::
    "clock \<Rightarrow> string \<Rightarrow> server \<Rightarrow> (http_exception + interrupt_response) \<times> server" where
  "interrupt_task now tid sv =
     (case running_tasks sv tid of
        None \<Rightarrow> (Inl (HTTPException 404 (''Task '' @ tid @ '' not found'')), sv)
      | Some info \<Rightarrow>
          (case get_session (info_session_id info) (manager sv) of
             None \<Rightarrow> (Inl (HTTPException 404 (''Session not found for task '' @ tid)), sv)
           | Some s \<Rightarrow>
               (case interrupt (client s) of
                  Inl e \<Rightarrow>
                    (Inl (HTTPException 500 (''Failed to interrupt task: '' @ str_exn e)), sv)
                | Inr c1 \<Rightarrow>
                    (let sv1 = sv\<lparr>running_tasks :=
                                     (running_tasks sv)(tid \<mapsto> info\<lparr>info_status := INTERRUPTED\<rparr>)\<rparr>;
                         (t, k) = utcnow now (server_clock_reads sv1)
                     in (Inr \<lparr>response_task_id = tid, response_status = INTERRUPTED,
                              interrupted_at = t\<rparr>,
                         sv1\<lparr>server_clock_reads := k\<rparr>)))))"

text \<open>
  \<^verbatim>\<open>websocket_endpoint\<close>, from the end of its wait for the task to its subscription: the
  close code and error sent when it gives up, or the queue it will drain. The session is a
  shared object, so the subscription is written back into the manager's table.
\<close>

datatype ws_close = WsClose int string

definition websocket_subscribe :: "string \<Rightarrow> server \<Rightarrow> (ws_close + event list) \<times> server" where
  "websocket_subscribe tid sv =
     (case running_tasks sv tid of
        None \<Rightarrow> (Inl (WsClose 1008 (''Task '' @ tid @ '' not found'')), sv)
      | Some info \<Rightarrow>
          (case get_session (info_session_id info) (manager sv) of
             None \<Rightarrow> (Inl (WsClose 1011 ''Session not found''), sv)
           | Some s \<Rightarrow>
               (let (event_queue, s1) = subscribe_task tid s
                in (Inr event_queue,
                    sv\<lparr>manager := (manager sv)
                          \<lparr>sessions := AList.update (info_session_id info) s1
                                         (sessions (manager sv))\<rparr>\<rparr>))))"

section \<open>Notions used by the properties\<close>

text \<open>The progress snapshots carried by the PROGRESS events of a list of events, in order.\<close>

fun snapshots :: "event list \<Rightarrow> task_progress list" where
  "snapshots [] = []"
| "snapshots (e # es) =
     (case edata e of ProgressData p \<Rightarrow> p # snapshots es | _ \<Rightarrow> snapshots es)"

text \<open>
  \<open>turns_consistent n ms\<close>: when \<open>n\<close> turns have been counted so far, the first result
  message of \<open>ms\<close>, if any, reports at least as many turns as assistant messages precede it.
\<close>

fun turns_consistent :: "int \<Rightarrow> message list \<Rightarrow> bool" where
  "turns_consistent n [] = True"
| "turns_consistent n (AssistantMessage content mdl # ms) = turns_consistent (n + 1) ms"
| "turns_consistent n (ResultMessage u num_turns d e # ms) = (n \<le> num_turns)"
| "turns_consistent n (m # ms) = turns_consistent n ms"

text \<open>The deadline of \<^verbatim>\<open>wait_for\<close> passes while the executor awaits the agent.\<close>

definition deadline_passes :: "client \<Rightarrow> bool" where
  "deadline_passes c =
     (query_outcome c = NeverReturns \<or>
      (query_outcome c = Returns \<and> \<not> list_ex is_ResultMessage (response c)
       \<and> response_end c = Hangs))"


text \<open>
  \<open>appends tid ex ex' evs\<close>: from \<open>ex\<close> to \<open>ex'\<close> the executor keeps its task id and start
  time, and the queue of task \<open>tid\<close>, when there is one, has grown by exactly \<open>evs\<close>.
\<close>

definition appends :: "string \<Rightarrow> executor \<Rightarrow> executor \<Rightarrow> event list \<Rightarrow> bool" where
  "appends tid ex ex' evs =
     (task_id ex' = task_id ex \<and> start_time ex' = start_time ex
      \<and> client (session ex') = client (session ex)
      \<and> (\<forall>q. event_queues (session ex) tid = Some q
               \<longrightarrow> event_queues (session ex') tid = Some (q @ evs)))"

text \<open>Events that are neither COMPLETE nor ERROR.\<close>

definition ordinary :: "event list \<Rightarrow> bool" where
  "ordinary evs = (\<forall>e \<in> set evs. etype e \<noteq> COMPLETE \<and> etype e \<noteq> ERROR)"

text \<open>
  \<open>quiet tid ex ex'\<close>: from \<open>ex\<close> to \<open>ex'\<close> the executor published only ordinary events for
  \<open>tid\<close>, none of them a PROGRESS event, and kept its turn count.
\<close>

definition quiet :: "string \<Rightarrow> executor \<Rightarrow> executor \<Rightarrow> bool" where
  "quiet tid ex ex' =
     (\<exists>evs. appends tid ex ex' evs \<and> ordinary evs \<and> snapshots evs = []
        \<and> turns (progress ex') = turns (progress ex) \<and> clock_reads ex \<le> clock_reads ex')"

text \<open>
  \<open>reports tid now st ex ex' n\<close>: from \<open>ex\<close> to \<open>ex'\<close> the executor published ordinary
  events for \<open>tid\<close>, exactly one of them a PROGRESS event; it carries the progress of \<open>ex'\<close>,
  whose turn count is \<open>n\<close> and whose elapsed time is a clock reading taken on the way,
  counted from the start time \<open>st\<close>.
\<close>

definition reports :: "string \<Rightarrow> clock \<Rightarrow> time \<Rightarrow> executor \<Rightarrow> executor \<Rightarrow> int \<Rightarrow> bool" where
  "reports tid now st ex ex' n =
     (\<exists>evs j. appends tid ex ex' evs \<and> ordinary evs \<and> snapshots evs = [progress ex']
        \<and> turns (progress ex') = n \<and> elapsed_time_ms (progress ex') = now j - st
        \<and> clock_reads ex \<le> j \<and> j < clock_reads ex')"

text \<open>
  \<open>rising now st ex evs\<close>: the snapshots of \<open>evs\<close> are non-decreasing in \<open>turns\<close> and in
  \<open>elapsed_time_ms\<close>, and none is below what \<open>ex\<close> has counted and what the clock shows
  at \<open>ex\<close>.
\<close>

definition rising :: "clock \<Rightarrow> time \<Rightarrow> executor \<Rightarrow> event list \<Rightarrow> bool" where
  "rising now st ex evs =
     (sorted (map turns (snapshots evs)) \<and> sorted (map elapsed_time_ms (snapshots evs))
      \<and> (\<forall>p \<in> set (snapshots evs). turns (progress ex) \<le> turns p
            \<and> now (clock_reads ex) - st \<le> elapsed_time_ms p))"

text \<open>How \<^verbatim>\<open>_execute_task\<close> ends, read off the behaviour of the agent client.\<close>

definition agent_outcome :: "client \<Rightarrow> task_outcome" where
  "agent_outcome c =
     (case query_outcome c of
        Fails e \<Rightarrow> Raised e
      | NeverReturns \<Rightarrow> Cancelled
      | Returns \<Rightarrow>
          if list_ex is_ResultMessage (response c) then Finished
          else (case response_end c of
                  Exhausted \<Rightarrow> Finished
                | Raises e \<Rightarrow> Raised e
                | Hangs \<Rightarrow> Cancelled))"

definition complete_event :: "time \<Rightarrow> int \<Rightarrow> string \<Rightarrow> string list \<Rightarrow> event" where
  "complete_event t code text errs =
     \<lparr>etype = COMPLETE, timestamp = t,
      edata = CompleteData \<lparr>exit_code = code, summary = Some text, errors = errs\<rparr>\<rparr>"

definition error_event :: "time \<Rightarrow> string \<Rightarrow> event" where
  "error_event t msg = \<lparr>etype = ERROR, timestamp = t, edata = ErrorData msg\<rparr>"

text \<open>
  The events with which \<^verbatim>\<open>execute\<close> closes a task, by the exception that reached it
  (none after a normal return), with their timestamps.
\<close>

fun closing :: "exn option \<Rightarrow> time \<Rightarrow> time \<Rightarrow> event list" where
  "closing None t1 t2 = [complete_event t2 0 ''Task completed successfully'' []]"
| "closing (Some e) t1 t2 =
     (if e = TimeoutError
      then [error_event t1 ''Task execution timed out'',
            complete_event t2 1 ''Task failed: Timeout'' [''Timeout'']]
      else [error_event t1 (str_exn e),
            complete_event t2 1 (''Task failed: '' @ str_exn e)
              (if str_exn e \<noteq> [] then [str_exn e] else [])])"


subsection \<open>Example values\<close>

definition example_options :: agent_options where
  "example_options =
     \<lparr>allowed_tools = [''Read'', ''Write''], permission_mode = ''acceptEdits'',
      max_turns = Some 50, model = None, cwd = ''/tmp/w'', env = []\<rparr>"

text \<open>A connected client all of whose calls return, with an empty response stream.\<close>

definition example_client :: client where
  "example_client =
     \<lparr>connected = True, connect_raises = None, query_outcome = Returns, response = [],
      response_end = Exhausted, interrupt_raises = None, disconnect_raises = None\<rparr>"

text \<open>A session that owns task \<open>t1\<close> and has a subscriber on it, with nothing queued.\<close>

definition example_session :: session where
  "example_session =
     \<lparr>session_id = ''session-t1'', workspace = ''/tmp/w'', options = example_options,
      client = example_client, status = ACTIVE, tasks = [''t1''], created_at = 0,
      last_activity = 0, event_queues = [''t1'' \<mapsto> []]\<rparr>"

text \<open>A clock that advances by 10 ms from one reading to the next.\<close>

definition example_clock :: clock where
  "example_clock k = 10 * int k"

definition example_event :: event where
  "example_event = \<lparr>etype = MESSAGE, timestamp = 0, edata = UserData ''hello''\<rparr>"

text \<open>A server on which task \<open>t1\<close> runs in session \<open>session-t1\<close>, with no subscriber yet.\<close>

definition example_server :: server where
  "example_server =
     \<lparr>running_tasks = [''t1'' \<mapsto> \<lparr>info_session_id = ''session-t1'', info_status = RUNNING,
                                   info_created_at = 0\<rparr>],
      manager = \<lparr>sessions = [(''session-t1'', example_session\<lparr>event_queues := Map.empty\<rparr>)],
                 logged = [], manager_clock_reads = 0\<rparr>,
      server_clock_reads = 0\<rparr>"


text \<open>
  The happy path: one assistant message with the text \<open>hi\<close>, then a result message with
  one turn, 10 tokens (6 in, 4 out) and a duration of 50 ms.
\<close>

definition happy_path :: session where
  "happy_path =
     example_session\<lparr>client := example_client
       \<lparr>response := [AssistantMessage [TextBlock ''hi''] ''m'',
                     ResultMessage (Some [(''total_tokens'', 10), (''input_tokens'', 6),
                                          (''output_tokens'', 4)]) 1 50 False]\<rparr>\<rparr>"

text \<open>
  A manager whose only session \<open>s1\<close> owns no task, was last active at time 0, and has a
  client whose \<^verbatim>\<open>disconnect\<close> raises; and a clock that shows 2000 s at the first reading,
  past the default idle timeout of 1800 s.
\<close>

definition stale_manager :: session_manager where
  "stale_manager =
     \<lparr>sessions = [(''s1'', example_session
                     \<lparr>session_id := ''s1'', tasks := [], event_queues := Map.empty,
                      client := example_client
                        \<lparr>disconnect_raises := Some (OtherError ''connection lost'')\<rparr>\<rparr>)],
      logged = [], manager_clock_reads = 0\<rparr>"

definition reaper_clock :: clock where
  "reaper_clock k = 2000000 + int k"

text \<open>A file system in which only \<open>/tmp/w\<close> exists, and paths resolve to themselves.\<close>

definition example_filesystem :: filesystem where
  "example_filesystem = \<lparr>resolve = (\<lambda>p. p), path_exists = (\<lambda>p. p = ''/tmp/w'')\<rparr>"

definition empty_options :: options_dict where
  "empty_options = \<lparr>opt_allowed_tools = None, opt_permission_mode = None,
                     opt_max_turns = None, opt_model = None\<rparr>"

definition empty_manager :: session_manager where
  "empty_manager = \<lparr>sessions = [], logged = [], manager_clock_reads = 0\<rparr>"

text \<open>The example server, with a session client whose \<^verbatim>\<open>interrupt\<close> raises.\<close>

definition unreachable_server :: server where
  "unreachable_server =
     example_server\<lparr>manager := (manager example_server)
       \<lparr>sessions := [(''session-t1'',
            example_session\<lparr>client := example_client
              \<lparr>interrupt_raises := Some (OtherError ''not connected'')\<rparr>\<rparr>)]\<rparr>\<rparr>"

text \<open>A client that is not yet connected, and one whose \<^verbatim>\<open>connect\<close> raises.\<close>

definition unconnected_client :: client where
  "unconnected_client = example_client\<lparr>connected := False\<rparr>"

definition broken_client :: client where
  "broken_client = example_client\<lparr>connected := False,
                                   connect_raises := Some (OtherError ''no backend'')\<rparr>"

section \<open>The executor publishes ordinary events, then closes the task\<close>

lemma appends_refl: "appends tid ex ex []"
  by (simp add: appends_def)

lemma appends_trans:
  "appends tid ex ex1 evs \<Longrightarrow> appends tid ex1 ex2 evs' \<Longrightarrow> appends tid ex ex2 (evs @ evs')"
  by (simp add: appends_def)

lemma ordinary_Nil: "ordinary []"
  by (simp add: ordinary_def)

lemma ordinary_append: "ordinary (xs @ ys) \<longleftrightarrow> ordinary xs \<and> ordinary ys"
  by (auto simp: ordinary_def)

lemma snapshots_append: "snapshots (xs @ ys) = snapshots xs @ snapshots ys"
  by (induction xs) (auto split: event_data.splits)

lemma emit_appends:
  "task_id ex = Some tid \<Longrightarrow>
   appends tid ex (emit now ty d ex) [\<lparr>etype = ty, timestamp = now (clock_reads ex), edata = d\<rparr>]"
  by (simp add: appends_def emit_def utcnow_def publish_event_def split: option.splits)

lemma emit_frame:
  "progress (emit now ty d ex) = progress ex"
  "clock_reads (emit now ty d ex) = Suc (clock_reads ex)"
  "task_id (emit now ty d ex) = task_id ex"
  "start_time (emit now ty d ex) = start_time ex"
  by (simp_all add: emit_def utcnow_def)

lemma quiet_refl: "quiet tid ex ex"
  unfolding quiet_def using appends_refl ordinary_Nil by fastforce

lemma quiet_trans: "quiet tid ex ex1 \<Longrightarrow> quiet tid ex1 ex2 \<Longrightarrow> quiet tid ex ex2"
  unfolding quiet_def
  apply clarify
  subgoal for evs evs'
    apply (rule exI [of _ "evs @ evs'"])
    apply (simp add: appends_trans ordinary_append snapshots_append)
    done
  done

lemma quiet_task_id: "quiet tid ex ex' \<Longrightarrow> task_id ex' = task_id ex"
  by (auto simp: quiet_def appends_def)

lemma quiet_start_time: "quiet tid ex ex' \<Longrightarrow> start_time ex' = start_time ex"
  by (auto simp: quiet_def appends_def)

lemma emit_quiet:
  assumes "task_id ex = Some tid" "ty \<in> {MESSAGE, TOOL_USE, TOOL_RESULT}"
    "\<And>p. d \<noteq> ProgressData p"
  shows "quiet tid ex (emit now ty d ex)"
  unfolding quiet_def
  apply (rule exI [of _ "[\<lparr>etype = ty, timestamp = now (clock_reads ex), edata = d\<rparr>]"])
  using assms by (cases d) (auto simp: emit_appends emit_frame ordinary_def)

lemma handle_block_quiet:
  assumes "task_id ex = Some tid"
  shows "quiet tid ex (handle_block now mdl b ex)"
proof (cases b)
  case (ToolResultBlock u c e)
  have q: "quiet tid ex (emit now TOOL_RESULT (ToolResultData u c e) ex)"
    using assms by (intro emit_quiet) auto
  show ?thesis using q ToolResultBlock
    by (cases c) (auto simp: emit_tool_result_def quiet_def appends_def Let_def)
qed (use assms in \<open>auto simp: emit_message_def emit_tool_use_def quiet_refl intro!: emit_quiet\<close>)

lemma fold_handle_block_quiet:
  "task_id ex = Some tid \<Longrightarrow> quiet tid ex (fold (handle_block now mdl) bs ex)"
proof (induction bs arbitrary: ex)
  case Nil
  then show ?case by (simp add: quiet_refl)
next
  case (Cons b bs)
  have 1: "quiet tid ex (handle_block now mdl b ex)" using Cons.prems by (rule handle_block_quiet)
  then have "task_id (handle_block now mdl b ex) = Some tid"
    using Cons.prems by (simp add: quiet_task_id)
  then have "quiet tid (handle_block now mdl b ex) (fold (handle_block now mdl) bs (handle_block now mdl b ex))"
    by (rule Cons.IH)
  with 1 show ?case by (auto intro: quiet_trans)
qed

lemma emit_progress_reports:
  assumes "task_id ex = Some tid" "start_time ex = Some st"
  shows "reports tid now st ex (emit_progress now ex) (turns (progress ex))"
proof -
  let ?ex1 = "ex\<lparr>clock_reads := Suc (clock_reads ex),
                 progress := (progress ex)\<lparr>elapsed_time_ms := now (clock_reads ex) - st\<rparr>\<rparr>"
  have e: "emit_progress now ex = emit now PROGRESS (ProgressData (progress ?ex1)) ?ex1"
    using assms by (simp add: emit_progress_def utcnow_def)
  have a1: "appends tid ex ?ex1 []" by (simp add: appends_def)
  have a2: "appends tid ?ex1 (emit now PROGRESS (ProgressData (progress ?ex1)) ?ex1)
              [\<lparr>etype = PROGRESS, timestamp = now (clock_reads ?ex1),
                edata = ProgressData (progress ?ex1)\<rparr>]"
    using assms by (intro emit_appends) simp
  from appends_trans [OF a1 a2] show ?thesis
    unfolding reports_def e
    apply (intro exI [of _ "[\<lparr>etype = PROGRESS, timestamp = now (clock_reads ?ex1),
                edata = ProgressData (progress ?ex1)\<rparr>]"] exI [of _ "clock_reads ex"])
    apply (simp add: emit_frame ordinary_def)
    done
qed

lemma quiet_reports:
  assumes "quiet tid ex ex1" "reports tid now st ex1 ex2 n"
  shows "reports tid now st ex ex2 n"
proof -
  from assms(1) obtain evs where 1: "appends tid ex ex1 evs" "ordinary evs" "snapshots evs = []"
    "clock_reads ex \<le> clock_reads ex1" by (auto simp: quiet_def)
  from assms(2) obtain evs' j where 2: "appends tid ex1 ex2 evs'" "ordinary evs'"
    "snapshots evs' = [progress ex2]" "turns (progress ex2) = n"
    "elapsed_time_ms (progress ex2) = now j - st" "clock_reads ex1 \<le> j" "j < clock_reads ex2"
    by (auto simp: reports_def)
  show ?thesis unfolding reports_def
    apply (intro exI [of _ "evs @ evs'"] exI [of _ j])
    using 1 2 by (simp add: appends_trans ordinary_append snapshots_append)
qed

lemma handle_assistant_message_reports:
  assumes "task_id ex = Some tid" "start_time ex = Some st"
  shows "reports tid now st ex (handle_assistant_message now bs mdl ex) (turns (progress ex) + 1)"
proof -
  let ?ex1 = "ex\<lparr>progress := (progress ex)\<lparr>turns := turns (progress ex) + 1\<rparr>\<rparr>"
  let ?ex2 = "fold (handle_block now mdl) bs ?ex1"
  have q1: "quiet tid ?ex1 ?ex2" using assms by (intro fold_handle_block_quiet) simp
  have t: "task_id ?ex2 = Some tid" "start_time ?ex2 = Some st"
    using q1 assms by (simp_all add: quiet_task_id quiet_start_time)
  have tn: "turns (progress ?ex2) = turns (progress ex) + 1"
    using q1 by (auto simp: quiet_def)
  have "reports tid now st ?ex2 (emit_progress now ?ex2) (turns (progress ?ex2))"
    using t by (rule emit_progress_reports)
  with q1 have "reports tid now st ?ex1 (emit_progress now ?ex2) (turns (progress ?ex2))"
    by (rule quiet_reports)
  then have "reports tid now st ex (emit_progress now ?ex2) (turns (progress ex) + 1)"
    unfolding tn by (simp add: reports_def appends_def)
  then show ?thesis by (simp add: handle_assistant_message_def)
qed

lemma handle_result_reports:
  assumes "task_id ex = Some tid" "start_time ex = Some st"
  shows "reports tid now st ex (handle_result now (ResultMessage u n d e) ex) n"
proof -
  define p1 where "p1 = (case u of None \<Rightarrow> progress ex
                | Some u \<Rightarrow>
                    if u = [] then progress ex
                    else (progress ex)\<lparr>tokens_used := usage_get u ''total_tokens'',
                                        tokens_input := usage_get u ''input_tokens'',
                                        tokens_output := usage_get u ''output_tokens''\<rparr>)"
  let ?ex1 = "ex\<lparr>progress := p1\<lparr>turns := n, elapsed_time_ms := d\<rparr>\<rparr>"
  have h: "handle_result now (ResultMessage u n d e) ex = emit_progress now ?ex1"
    by (simp add: p1_def)
  have "reports tid now st ?ex1 (emit_progress now ?ex1) (turns (progress ?ex1))"
    using assms by (intro emit_progress_reports) simp_all
  then show ?thesis
    unfolding h reports_def by (simp add: appends_def)
qed

lemma handle_message_quiet:
  assumes "task_id ex = Some tid" "\<And>bs mdl. m \<noteq> AssistantMessage bs mdl"
  shows "quiet tid ex (handle_message now m ex)"
  using assms
  by (cases m) (auto simp: handle_user_message_def handle_system_message_def emit_message_def
      quiet_refl intro!: emit_quiet)

lemma reports_task_id: "reports tid now st ex ex' n \<Longrightarrow> task_id ex' = task_id ex"
  by (auto simp: reports_def appends_def)

lemma reports_start_time: "reports tid now st ex ex' n \<Longrightarrow> start_time ex' = start_time ex"
  by (auto simp: reports_def appends_def)

lemma rising_Nil: "rising now st ex []"
  by (simp add: rising_def)

lemma rising_after_quiet:
  assumes "snapshots evs = []" "turns (progress ex1) = turns (progress ex)"
    "clock_reads ex \<le> clock_reads ex1" "mono now" "rising now st ex1 evs'"
  shows "rising now st ex (evs @ evs')"
proof -
  have "now (clock_reads ex) \<le> now (clock_reads ex1)"
    using assms(3,4) by (simp add: monoD)
  then show ?thesis
    using assms(1,2,5) by (fastforce simp: rising_def snapshots_append)
qed

lemma rising_after_report:
  assumes "snapshots evs = [progress ex1]" "turns (progress ex) \<le> turns (progress ex1)"
    "elapsed_time_ms (progress ex1) = now j - st" "clock_reads ex \<le> j" "j < clock_reads ex1"
    "mono now" "rising now st ex1 evs'"
  shows "rising now st ex (evs @ evs')"
proof -
  have 1: "now (clock_reads ex) \<le> now j" "now j \<le> now (clock_reads ex1)"
    using assms(4,5,6) by (simp_all add: monoD)
  show ?thesis
    using assms(1,2,3,7) 1 by (fastforce simp: rising_def snapshots_append)
qed

lemma receive_loop_appends:
  assumes "task_id ex = Some tid" "start_time ex = Some st"
  shows "\<exists>evs. appends tid ex (snd (receive_loop now ms e ex)) evs \<and> ordinary evs
           \<and> (mono now \<and> turns_consistent (turns (progress ex)) ms \<longrightarrow> rising now st ex evs)"
  using assms
proof (induction ms arbitrary: ex)
  case Nil
  have "snd (receive_loop now [] e ex) = ex" by (cases e) simp_all
  then show ?case
    using appends_refl ordinary_Nil rising_Nil by (intro exI [of _ "[]"]) simp
next
  case (Cons m ms)
  show ?case
  proof (cases m)
    case (ResultMessage u n d ie)
    have "reports tid now st ex (handle_result now (ResultMessage u n d ie) ex) n"
      using Cons.prems by (rule handle_result_reports)
    then obtain evs j where r: "appends tid ex (handle_result now (ResultMessage u n d ie) ex) evs"
      "ordinary evs" "snapshots evs = [progress (handle_result now (ResultMessage u n d ie) ex)]"
      "turns (progress (handle_result now (ResultMessage u n d ie) ex)) = n"
      "elapsed_time_ms (progress (handle_result now (ResultMessage u n d ie) ex)) = now j - st"
      "clock_reads ex \<le> j" "j < clock_reads (handle_result now (ResultMessage u n d ie) ex)"
      unfolding reports_def by blast
    have "rising now st ex (evs @ [])"
      if "mono now" "turns_consistent (turns (progress ex)) (m # ms)"
      using r(3) _ r(5,6,7) that(1) rising_Nil
      by (rule rising_after_report) (use that(2) r(4) ResultMessage in simp)
    then show ?thesis
      using r(1,2) ResultMessage by (intro exI [of _ evs]) simp
  next
    case (AssistantMessage bs mdl)
    let ?ex1 = "handle_assistant_message now bs mdl ex"
    have rep: "reports tid now st ex ?ex1 (turns (progress ex) + 1)"
      using Cons.prems by (rule handle_assistant_message_reports)
    then obtain evs j where r: "appends tid ex ?ex1 evs" "ordinary evs"
      "snapshots evs = [progress ?ex1]" "turns (progress ?ex1) = turns (progress ex) + 1"
      "elapsed_time_ms (progress ?ex1) = now j - st" "clock_reads ex \<le> j" "j < clock_reads ?ex1"
      unfolding reports_def by blast
    have "task_id ?ex1 = Some tid" "start_time ?ex1 = Some st"
      using rep Cons.prems by (simp_all add: reports_task_id reports_start_time)
    from Cons.IH [OF this] obtain evs' where
      i: "appends tid ?ex1 (snd (receive_loop now ms e ?ex1)) evs'" "ordinary evs'"
        "mono now \<and> turns_consistent (turns (progress ?ex1)) ms \<longrightarrow> rising now st ?ex1 evs'"
      by blast
    have "rising now st ex (evs @ evs')"
      if "mono now" "turns_consistent (turns (progress ex)) (m # ms)"
      using r(3) _ r(5,6,7) that(1)
    proof (rule rising_after_report)
      show "turns (progress ex) \<le> turns (progress ?ex1)" using r(4) by simp
      show "rising now st ?ex1 evs'" using i(3) that r(4) AssistantMessage by simp
    qed
    then show ?thesis
      using appends_trans [OF r(1) i(1)] r(2) i(2) AssistantMessage
      by (intro exI [of _ "evs @ evs'"]) (simp add: ordinary_append)
  next
    case (UserMessage c)
    let ?ex1 = "handle_message now m ex"
    have "quiet tid ex ?ex1" using Cons.prems(1) UserMessage by (intro handle_message_quiet) auto
    then obtain evs where r: "appends tid ex ?ex1 evs" "ordinary evs" "snapshots evs = []"
      "turns (progress ?ex1) = turns (progress ex)" "clock_reads ex \<le> clock_reads ?ex1"
      unfolding quiet_def by blast
    have "task_id ?ex1 = Some tid" "start_time ?ex1 = Some st"
      using r(1) Cons.prems by (simp_all add: appends_def)
    from Cons.IH [OF this] obtain evs' where
      i: "appends tid ?ex1 (snd (receive_loop now ms e ?ex1)) evs'" "ordinary evs'"
        "mono now \<and> turns_consistent (turns (progress ?ex1)) ms \<longrightarrow> rising now st ?ex1 evs'"
      by blast
    have "rising now st ex (evs @ evs')"
      if "mono now" "turns_consistent (turns (progress ex)) (m # ms)"
      using r(3,4,5) that(1)
      by (rule rising_after_quiet) (use i(3) that r(4) UserMessage in simp)
    then show ?thesis
      using appends_trans [OF r(1) i(1)] r(2) i(2) UserMessage
      by (intro exI [of _ "evs @ evs'"]) (simp add: ordinary_append)
  next
    case (SystemMessage sub dat)
    let ?ex1 = "handle_message now m ex"
    have "quiet tid ex ?ex1" using Cons.prems(1) SystemMessage by (intro handle_message_quiet) auto
    then obtain evs where r: "appends tid ex ?ex1 evs" "ordinary evs" "snapshots evs = []"
      "turns (progress ?ex1) = turns (progress ex)" "clock_reads ex \<le> clock_reads ?ex1"
      unfolding quiet_def by blast
    have "task_id ?ex1 = Some tid" "start_time ?ex1 = Some st"
      using r(1) Cons.prems by (simp_all add: appends_def)
    from Cons.IH [OF this] obtain evs' where
      i: "appends tid ?ex1 (snd (receive_loop now ms e ?ex1)) evs'" "ordinary evs'"
        "mono now \<and> turns_consistent (turns (progress ?ex1)) ms \<longrightarrow> rising now st ?ex1 evs'"
      by blast
    have "rising now st ex (evs @ evs')"
      if "mono now" "turns_consistent (turns (progress ex)) (m # ms)"
      using r(3,4,5) that(1)
      by (rule rising_after_quiet) (use i(3) that r(4) SystemMessage in simp)
    then show ?thesis
      using appends_trans [OF r(1) i(1)] r(2) i(2) SystemMessage
      by (intro exI [of _ "evs @ evs'"]) (simp add: ordinary_append)
  next
    case OtherMessage
    from Cons.IH [OF Cons.prems] obtain evs' where
      i: "appends tid ex (snd (receive_loop now ms e ex)) evs'" "ordinary evs'"
        "mono now \<and> turns_consistent (turns (progress ex)) ms \<longrightarrow> rising now st ex evs'"
      by blast
    then show ?thesis
      using OtherMessage by (intro exI [of _ evs']) simp
  qed
qed

lemma receive_loop_outcome:
  "fst (receive_loop now ms e ex) =
     (if list_ex is_ResultMessage ms then Finished
      else (case e of Exhausted \<Rightarrow> Finished | Raises x \<Rightarrow> Raised x | Hangs \<Rightarrow> Cancelled))"
  by (induction ms arbitrary: ex) (auto simp: Let_def split: stream_end.splits)

lemma execute_task_fst:
  "fst (execute_task now prompt ex) =
     (case query_outcome (client (session ex)) of
        Fails e \<Rightarrow> Raised e
      | NeverReturns \<Rightarrow> Cancelled
      | Returns \<Rightarrow> fst (receive_loop now (response (client (session ex)))
                          (response_end (client (session ex))) ex))"
proof (cases "query_outcome (client (session ex))")
  case Returns
  obtain r ex1 where l: "receive_loop now (response (client (session ex)))
     (response_end (client (session ex))) ex = (r, ex1)"
    by (cases "receive_loop now (response (client (session ex)))
     (response_end (client (session ex))) ex")
  show ?thesis using Returns l by (cases r) (simp_all add: execute_task_def)
qed (simp_all add: execute_task_def)

lemma execute_task_outcome:
  "fst (execute_task now prompt ex) = agent_outcome (client (session ex))"
  by (simp add: execute_task_fst receive_loop_outcome agent_outcome_def
      split: call_outcome.splits)

lemma complete_task_appends:
  assumes "task_id ex = Some tid"
  shows "appends tid ex (complete_task now success err ex)
     [complete_event (now (clock_reads ex)) (if success then 0 else 1)
        (if success then ''Task completed successfully''
         else ''Task failed: '' @ (case err of Some e \<Rightarrow> e | None \<Rightarrow> ''None''))
        (case err of Some e \<Rightarrow> if e \<noteq> [] then [e] else [] | None \<Rightarrow> [])]"
  unfolding complete_task_def Let_def complete_event_def
  using assms by (rule emit_appends)

lemma emit_error_appends:
  assumes "task_id ex = Some tid"
  shows "appends tid ex (emit_error now msg ex) [error_event (now (clock_reads ex)) msg]"
  unfolding emit_error_def error_event_def using assms by (rule emit_appends)

lemma execute_task_appends:
  assumes "task_id ex = Some tid" "start_time ex = Some st"
  shows "\<exists>evs t. appends tid ex (snd (execute_task now prompt ex))
                   (evs @ (if fst (execute_task now prompt ex) = Finished
                           then [complete_event t 0 ''Task completed successfully'' []] else []))
           \<and> ordinary evs
           \<and> (mono now \<and> turns_consistent (turns (progress ex)) (response (client (session ex)))
                \<longrightarrow> rising now st ex evs)"
proof (cases "query_outcome (client (session ex))")
  case Returns
  let ?l = "receive_loop now (response (client (session ex))) (response_end (client (session ex))) ex"
  obtain evs where l: "appends tid ex (snd ?l) evs" "ordinary evs"
    "mono now \<and> turns_consistent (turns (progress ex)) (response (client (session ex)))
       \<longrightarrow> rising now st ex evs"
    using receive_loop_appends [OF assms] by blast
  show ?thesis
  proof (cases "fst ?l = Finished")
    case True
    have e: "execute_task now prompt ex = (Finished, complete_task now True None (snd ?l))"
      using Returns True by (cases ?l) (simp add: execute_task_def)
    have "task_id (snd ?l) = Some tid" using l(1) assms by (simp add: appends_def)
    from complete_task_appends [OF this, of now True None]
    have "appends tid (snd ?l) (complete_task now True None (snd ?l))
            [complete_event (now (clock_reads (snd ?l))) 0 ''Task completed successfully'' []]"
      by simp
    from appends_trans [OF l(1) this] show ?thesis
      using l(2,3) unfolding e by (intro exI [of _ evs] exI [of _ "now (clock_reads (snd ?l))"]) simp
  next
    case False
    have e: "execute_task now prompt ex = ?l"
      using Returns False by (cases ?l; cases "fst ?l") (simp_all add: execute_task_def)
    show ?thesis using l False unfolding e by (intro exI [of _ evs]) simp
  qed
next
  case (Fails x)
  then show ?thesis
    using appends_refl ordinary_Nil rising_Nil by (intro exI [of _ "[]"]) (simp add: execute_task_def)
next
  case NeverReturns
  then show ?thesis
    using appends_refl ordinary_Nil rising_Nil by (intro exI [of _ "[]"]) (simp add: execute_task_def)
qed

lemma remove_task_queues: "event_queues (remove_task t tid s) = event_queues s"
  by (simp add: remove_task_def)

lemma execute_unfold:
  "execute now tid prompt timeout ex =
     (let ex1 = ex\<lparr>task_id := Some tid, start_time := Some (now (clock_reads ex)),
                   clock_reads := Suc (clock_reads ex)\<rparr>;
          r = fst (execute_task now prompt ex1);
          ex2 = snd (execute_task now prompt ex1);
          ex3 = (case wait_for r of
                   None \<Rightarrow> ex2
                 | Some e \<Rightarrow>
                     if e = TimeoutError
                     then complete_task now False (Some ''Timeout'')
                            (emit_error now ''Task execution timed out'' ex2)
                     else complete_task now False (Some (str_exn e))
                            (emit_error now (str_exn e) ex2))
      in ex3\<lparr>clock_reads := Suc (clock_reads ex3),
             session := remove_task (now (clock_reads ex3)) tid (session ex3)\<rparr>)"
  unfolding execute_def utcnow_def Let_def split_def fst_conv snd_conv by (rule refl)

lemma fail_appends:
  assumes "task_id ex = Some tid"
  shows "\<exists>t1 t2. appends tid ex (complete_task now False (Some err) (emit_error now msg ex))
                   [error_event t1 msg,
                    complete_event t2 1 (''Task failed: '' @ err) (if err \<noteq> [] then [err] else [])]"
proof -
  have 1: "appends tid ex (emit_error now msg ex) [error_event (now (clock_reads ex)) msg]"
    using assms by (rule emit_error_appends)
  then have "task_id (emit_error now msg ex) = Some tid" using assms by (simp add: appends_def)
  from complete_task_appends [OF this, of now False "Some err"] appends_trans [OF 1]
  show ?thesis by fastforce
qed

lemma execute_queue:
  assumes "event_queues (session ex) tid = Some q"
  shows "\<exists>evs t1 t2.
           event_queues (session (execute now tid prompt timeout ex)) tid
             = Some (q @ evs @ closing (wait_for (agent_outcome (client (session ex)))) t1 t2)
           \<and> ordinary evs
           \<and> (mono now \<and> turns_consistent (turns (progress ex)) (response (client (session ex)))
                \<longrightarrow> sorted (map turns (snapshots evs))
                    \<and> sorted (map elapsed_time_ms (snapshots evs)))"
proof -
  define ex1 where "ex1 = ex\<lparr>task_id := Some tid, start_time := Some (now (clock_reads ex)),
                   clock_reads := Suc (clock_reads ex)\<rparr>"
  define r where "r = fst (execute_task now prompt ex1)"
  define ex2 where "ex2 = snd (execute_task now prompt ex1)"
  define ex3 where "ex3 = (case wait_for r of
                   None \<Rightarrow> ex2
                 | Some e \<Rightarrow>
                     if e = TimeoutError
                     then complete_task now False (Some ''Timeout'')
                            (emit_error now ''Task execution timed out'' ex2)
                     else complete_task now False (Some (str_exn e))
                            (emit_error now (str_exn e) ex2))"
  have fin: "event_queues (session (execute now tid prompt timeout ex)) tid
               = event_queues (session ex3) tid"
    unfolding execute_unfold Let_def ex3_def ex2_def r_def ex1_def
    by (simp add: remove_task_queues)
  have q1: "event_queues (session ex1) tid = Some q" "task_id ex1 = Some tid"
    "start_time ex1 = Some (now (clock_reads ex))" "client (session ex1) = client (session ex)"
    "progress ex1 = progress ex"
    using assms by (simp_all add: ex1_def)
  have out: "r = agent_outcome (client (session ex))"
    by (simp add: r_def execute_task_outcome q1)
  obtain evs t where a: "appends tid ex1 ex2
        (evs @ (if r = Finished then [complete_event t 0 ''Task completed successfully'' []] else []))"
    "ordinary evs"
    "mono now \<and> turns_consistent (turns (progress ex)) (response (client (session ex)))
       \<longrightarrow> rising now (now (clock_reads ex)) ex1 evs"
    using execute_task_appends [OF q1(2,3), of now prompt] unfolding r_def ex2_def q1(4,5) by blast
  have srt: "mono now \<and> turns_consistent (turns (progress ex)) (response (client (session ex)))
                \<longrightarrow> sorted (map turns (snapshots evs))
                    \<and> sorted (map elapsed_time_ms (snapshots evs))"
    using a(3) by (simp add: rising_def)
  have t2: "task_id ex2 = Some tid" using a(1) q1(2) by (simp add: appends_def)
  show ?thesis
  proof (cases r)
    case Finished
    then have "ex3 = ex2" by (simp add: ex3_def)
    then have "event_queues (session ex3) tid
                 = Some (q @ evs @ closing (wait_for r) t t)"
      using a(1) q1(1) Finished by (simp add: appends_def)
    then show ?thesis using a(2) srt fin out by metis
  next
    case (Raised e)
    have q2: "event_queues (session ex2) tid = Some (q @ evs)"
      using a(1) q1(1) Raised by (simp add: appends_def)
    show ?thesis
    proof (cases "e = TimeoutError")
      case True
      then have e3: "ex3 = complete_task now False (Some ''Timeout'')
                            (emit_error now ''Task execution timed out'' ex2)"
        using Raised by (simp add: ex3_def)
      obtain t1 t2 where "appends tid ex2 ex3 (closing (wait_for r) t1 t2)"
        using fail_appends [OF t2, of now "''Timeout''" "''Task execution timed out''"] Raised True
        unfolding e3 by auto
      then have "event_queues (session ex3) tid = Some (q @ evs @ closing (wait_for r) t1 t2)"
        using q2 by (simp add: appends_def)
      then show ?thesis using a(2) srt fin out by metis
    next
      case False
      then have e3: "ex3 = complete_task now False (Some (str_exn e))
                            (emit_error now (str_exn e) ex2)"
        using Raised by (simp add: ex3_def)
      obtain t1 t2 where "appends tid ex2 ex3 (closing (wait_for r) t1 t2)"
        using fail_appends [OF t2, of now "str_exn e" "str_exn e"] Raised False
        unfolding e3 by auto
      then have "event_queues (session ex3) tid = Some (q @ evs @ closing (wait_for r) t1 t2)"
        using q2 by (simp add: appends_def)
      then show ?thesis using a(2) srt fin out by metis
    qed
  next
    case Cancelled
    have q2: "event_queues (session ex2) tid = Some (q @ evs)"
      using a(1) q1(1) Cancelled by (simp add: appends_def)
    have e3: "ex3 = complete_task now False (Some ''Timeout'')
                            (emit_error now ''Task execution timed out'' ex2)"
      using Cancelled by (simp add: ex3_def)
    obtain t1 t2 where "appends tid ex2 ex3 (closing (wait_for r) t1 t2)"
      using fail_appends [OF t2, of now "''Timeout''" "''Task execution timed out''"] Cancelled
      unfolding e3 by auto
    then have "event_queues (session ex3) tid = Some (q @ evs @ closing (wait_for r) t1 t2)"
      using q2 by (simp add: appends_def)
    then show ?thesis using a(2) srt fin out by metis
  qed
qed


lemma deadline_passes_outcome:
  "deadline_passes c \<Longrightarrow> wait_for (agent_outcome c) = Some TimeoutError"
  by (auto simp: deadline_passes_def agent_outcome_def)


section \<open>Task executor: properties\<close>



text \<open>
  Claim C7. When the deadline of the task passes while the executor awaits the agent (the
  query does not return in time, or the stream yields no result message and then nothing
  more in time), the last two events appended to the task's queue are an ERROR event with
  the message \<open>Task execution timed out\<close> and then a COMPLETE event with exit code 1 and
  errors \<open>[Timeout]\<close>; the events before them are neither ERROR nor COMPLETE.
\<close>

theorem timeout_events:
  assumes "event_queues (session ex) tid = Some q" "deadline_passes (client (session ex))"
  shows "\<exists>evs t1 t2.
           event_queues (session (execute now tid prompt timeout ex)) tid
             = Some (q @ evs @
                 [\<lparr>etype = ERROR, timestamp = t1, edata = ErrorData ''Task execution timed out''\<rparr>,
                  \<lparr>etype = COMPLETE, timestamp = t2,
                   edata = CompleteData \<lparr>exit_code = 1, summary = Some ''Task failed: Timeout'',
                                          errors = [''Timeout'']\<rparr>\<rparr>])
           \<and> ordinary evs"
  using execute_queue [OF assms(1), of now prompt timeout] deadline_passes_outcome [OF assms(2)]
  by (auto simp: complete_event_def error_event_def)

theorem timeout_events_witness:
  "\<exists>evs t1 t2.
     event_queues (session (execute example_clock ''t1'' ''fix the bug'' 1
         (TaskExecutor (example_session\<lparr>client := example_client\<lparr>response_end := Hangs\<rparr>\<rparr>) 0))) ''t1''
       = Some ([] @ evs @
                 [\<lparr>etype = ERROR, timestamp = t1, edata = ErrorData ''Task execution timed out''\<rparr>,
                  \<lparr>etype = COMPLETE, timestamp = t2,
                   edata = CompleteData \<lparr>exit_code = 1, summary = Some ''Task failed: Timeout'',
                                          errors = [''Timeout'']\<rparr>\<rparr>])
     \<and> ordinary evs"
  using timeout_events [of "TaskExecutor (example_session\<lparr>client := example_client\<lparr>response_end := Hangs\<rparr>\<rparr>) 0"
      "''t1''" "[]" example_clock "''fix the bug''" 1]
  by (simp add: TaskExecutor_def example_session_def example_client_def deadline_passes_def)







text \<open>
  Whatever \<open>duration_ms\<close> the result message carries, the progress that
  \<^verbatim>\<open>_handle_result\<close> leaves behind, and publishes, has the time elapsed on the clock.
\<close>

lemma handle_result_elapsed:
  assumes "start_time ex = Some st"
  shows "elapsed_time_ms (progress (handle_result now (ResultMessage u n d e) ex))
           = now (clock_reads ex) - st"
  using assms by (simp add: emit_progress_def emit_def utcnow_def Let_def)

text \<open>
  Claim C8: the final PROGRESS event should carry the result message's usage totals, its
  \<open>num_turns\<close> and its \<open>duration_ms\<close>. On the happy path, with a clock that advances
  10 ms per reading and a result message whose \<open>duration_ms\<close> is 50, the final PROGRESS
  event carries the tokens and the turns of the result message, but an
  \<open>elapsed_time_ms\<close> of 40: \<^verbatim>\<open>_emit_progress\<close> overwrites the duration just stored with
  the time elapsed on the clock.
\<close>

theorem final_progress_ignores_duration:
  "map_option snapshots
     (event_queues (session (execute example_clock ''t1'' ''echo hi'' 3600
                               (TaskExecutor happy_path 0))) ''t1'')
   = Some [\<lparr>turns = 1, tokens_used = 0, tokens_input = 0, tokens_output = 0,
            files_modified = 0, elapsed_time_ms = 20\<rparr>,
           \<lparr>turns = 1, tokens_used = 10, tokens_input = 6, tokens_output = 4,
            files_modified = 0, elapsed_time_ms = 40\<rparr>]"
  by (simp add: happy_path_def execute_def utcnow_def execute_task_def
      TaskExecutor_def TaskProgress_def example_session_def example_client_def example_clock_def
      handle_assistant_message_def emit_progress_def emit_def publish_event_def emit_message_def
      complete_task_def remove_task_def usage_get_def Let_def)

section \<open>Event queues: properties\<close>

lemma publish_event_queue:
  "event_queues s tid = Some q \<Longrightarrow>
   event_queues (publish_event (Some tid) ev s) tid = Some (q @ [ev])"
  by (simp add: publish_event_def)

lemma publish_many:
  "event_queues s tid = Some q \<Longrightarrow>
   event_queues ((publish_event (Some tid) ev ^^ n) s) tid = Some (q @ replicate n ev)"
proof (induction n)
  case 0
  then show ?case by simp
next
  case (Suc n)
  then have "event_queues ((publish_event (Some tid) ev ^^ n) s) tid = Some (q @ replicate n ev)"
    by simp
  then have "event_queues (publish_event (Some tid) ev ((publish_event (Some tid) ev ^^ n) s)) tid
               = Some ((q @ replicate n ev) @ [ev])"
    by (rule publish_event_queue)
  then show ?case by (simp add: replicate_append_same)
qed

text \<open>
  Claim C3, as stated: the number of undrained events of a task's queue never exceeds the
  configured maximum. It fails: the queue is made by \<^verbatim>\<open>asyncio.Queue()\<close> without a
  size, and \<open>max_queue_size\<close> is read nowhere. After 101 publishes onto a fresh
  subscription the queue holds 101 events, while the configured maximum is 100.
\<close>

theorem queue_bound_counterexample:
  "map_option length
     (event_queues ((publish_event (Some ''t1'') example_event ^^ 101)
                      (snd (subscribe_task ''t1'' (example_session\<lparr>event_queues := Map.empty\<rparr>))))
        ''t1'')
   = Some 101
   \<and> max_queue_size (default_config ''key'') = 100"
proof -
  have "event_queues (snd (subscribe_task ''t1'' (example_session\<lparr>event_queues := Map.empty\<rparr>))) ''t1''
          = Some []"
    by (simp add: subscribe_task_def)
  from publish_many [OF this, where ev = example_event and n = 101] show ?thesis
    by (simp add: default_config_def)
qed

text \<open>
  Claim C3, amended. A task's queue has no capacity bound: a publish onto an existing
  queue appends the event at once, whatever the queue's length, so it never blocks the
  executor and never drops the event. A publish for a task without a queue changes
  nothing, and a first subscription creates an empty queue.
\<close>

theorem publish_unbounded:
  "(\<forall>q. event_queues s tid = Some q \<longrightarrow>
         event_queues (publish_event (Some tid) ev s) tid = Some (q @ [ev]))
   \<and> (event_queues s tid = None \<longrightarrow> publish_event (Some tid) ev s = s)
   \<and> (event_queues s tid = None \<longrightarrow> event_queues (snd (subscribe_task tid s)) tid = Some [])"
  by (simp add: publish_event_def subscribe_task_def)

theorem publish_unbounded_witness:
  "event_queues (publish_event (Some ''t1'') example_event example_session) ''t1''
     = Some [example_event]
   \<and> publish_event (Some ''t2'') example_event example_session = example_session
   \<and> event_queues (snd (subscribe_task ''t2'' example_session)) ''t2'' = Some []"
  using publish_unbounded [of example_session "''t1''" example_event]
        publish_unbounded [of example_session "''t2''" example_event]
  by (simp add: example_session_def)

text \<open>
  Claim C4, as stated: a second subscription for a task that has a live subscriber is
  rejected with an error. It fails: \<^verbatim>\<open>subscribe_task\<close> has no failing branch. When the
  stream endpoint subscribes twice to task \<open>t1\<close>, the second attempt succeeds and gets
  the queue of the first.
\<close>

theorem second_subscription_counterexample:
  "fst (websocket_subscribe ''t1'' (snd (websocket_subscribe ''t1'' example_server))) = Inr []"
  by (simp add: websocket_subscribe_def example_server_def get_session_def subscribe_task_def
      example_session_def)

text \<open>
  Claim C4, amended. For a registered task whose session is live and which already has a
  queue, a further subscription succeeds: \<^verbatim>\<open>subscribe_task\<close> returns the existing queue
  and leaves the session unchanged, and the stream endpoint goes on to drain that queue.
\<close>

theorem second_subscription_succeeds:
  assumes "running_tasks sv tid = Some info"
    "get_session (info_session_id info) (manager sv) = Some s"
    "event_queues s tid = Some q"
  shows "subscribe_task tid s = (q, s) \<and> fst (websocket_subscribe tid sv) = Inr q"
  using assms by (simp add: websocket_subscribe_def subscribe_task_def)

theorem second_subscription_succeeds_witness:
  "subscribe_task ''t1'' example_session = ([], example_session)
   \<and> fst (websocket_subscribe ''t1''
            (example_server\<lparr>manager := (manager example_server)
                               \<lparr>sessions := [(''session-t1'', example_session)]\<rparr>\<rparr>)) = Inr []"
  using second_subscription_succeeds [of
      "example_server\<lparr>manager := (manager example_server)
                               \<lparr>sessions := [(''session-t1'', example_session)]\<rparr>\<rparr>"
      "''t1''" "\<lparr>info_session_id = ''session-t1'', info_status = RUNNING, info_created_at = 0\<rparr>"
      example_session "[]"]
  by (simp add: example_server_def get_session_def example_session_def)

section \<open>Session manager: properties\<close>

text \<open>
  \<^verbatim>\<open>delete_session\<close> catches a failure of \<^verbatim>\<open>disconnect\<close> before it deletes, so it removes
  the session whether or not the disconnect succeeds. In \<^verbatim>\<open>_cleanup_idle_sessions\<close> the
  deletion is inside the \<^verbatim>\<open>try\<close>, after the disconnect: when the disconnect raises, the
  session stays in the table.
\<close>

lemma delete_session_removes:
  assumes "map_of (sessions m) sid = Some s"
  shows "fst (delete_session sid m) = Inr ()
         \<and> map_of (sessions (snd (delete_session sid m))) sid = None"
  using assms
  by (simp add: delete_session_def Let_def logger_def delete_conv' split: sum.splits)

lemma cleanup_one_disconnect_error:
  assumes "map_of (sessions m) sid = Some s" "disconnect_raises (client s) = Some e"
  shows "sessions (cleanup_one sid m) = sessions m"
  using assms by (simp add: cleanup_one_def disconnect_def logger_def)

text \<open>
  Claim C2: an idle session is removed by the reaper pass even when disconnecting its
  client raises. The code does not do this. The manager's only session \<open>s1\<close> owns no task
  and has been inactive for 2000 s, beyond the idle timeout of 1800 s; its client's
  \<^verbatim>\<open>disconnect\<close> raises. After the reaper pass \<open>s1\<close> is still in the session table; the
  failure has been logged.
\<close>

theorem cleanup_keeps_session_on_disconnect_error:
  "map fst (sessions (cleanup_idle_sessions (default_config ''key'') reaper_clock stale_manager))
     = [''s1'']
   \<and> logged (cleanup_idle_sessions (default_config ''key'') reaper_clock stale_manager)
     = [(LOG_ERROR, ''Error cleaning up session s1: connection lost''),
        (LOG_INFO, ''Cleaned up 1 idle sessions (remaining: 1)'')]"
  by (simp add: cleanup_idle_sessions_def default_config_def reaper_clock_def stale_manager_def
      is_idle_def utcnow_def cleanup_one_def disconnect_def logger_def example_session_def
      example_client_def str_nat.simps digit_char_def)

lemma update_new_key: "map_of al k = None \<Longrightarrow> AList.update k v al = al @ [(k, v)]"
  by (induction al) (auto split: if_splits)

text \<open>
  Claim C6. \<^verbatim>\<open>create_session\<close> checks in this order: a live session id raises
  \<^verbatim>\<open>ValueError\<close> (already exists); otherwise a table with at least \<open>max_concurrent\<close>
  sessions raises \<^verbatim>\<open>RuntimeError\<close> (at capacity); otherwise a workspace that does not
  exist raises \<^verbatim>\<open>ValueError\<close> (invalid workspace); each leaves the manager as it was.
  Otherwise the client is connected first: when \<^verbatim>\<open>connect\<close> raises, the exception is
  passed on and the session table is unchanged; when it returns, the session is created
  with the connected client and added at the end of the table.
\<close>

theorem create_session_contract:
  "(map_of (sessions m) sid \<noteq> None \<longrightarrow>
      create_session cfg fs now new_client sid ws opts m
        = (Inl (ValueError (''Session '' @ sid @ '' already exists'')), m))
   \<and> (map_of (sessions m) sid = None \<and> max_concurrent cfg \<le> int (length (sessions m)) \<longrightarrow>
      create_session cfg fs now new_client sid ws opts m
        = (Inl (RuntimeError (''Maximum concurrent sessions ('' @ str_int (max_concurrent cfg)
                               @ '') reached'')), m))
   \<and> (map_of (sessions m) sid = None \<and> int (length (sessions m)) < max_concurrent cfg
        \<and> \<not> path_exists fs (resolve fs ws) \<longrightarrow>
      create_session cfg fs now new_client sid ws opts m
        = (Inl (ValueError (''Workspace directory does not exist: '' @ ws)), m))
   \<and> (map_of (sessions m) sid = None \<and> int (length (sessions m)) < max_concurrent cfg
        \<and> path_exists fs (resolve fs ws) \<longrightarrow>
      (case connect (new_client (build_options cfg (resolve fs ws) opts)) of
         Inl e \<Rightarrow>
           fst (create_session cfg fs now new_client sid ws opts m) = Inl e
           \<and> sessions (snd (create_session cfg fs now new_client sid ws opts m)) = sessions m
       | Inr c \<Rightarrow>
           (\<exists>s. fst (create_session cfg fs now new_client sid ws opts m) = Inr s
                \<and> client s = c \<and> connected c
                \<and> sessions (snd (create_session cfg fs now new_client sid ws opts m))
                    = sessions m @ [(sid, s)])))"
proof -
  have "connected c" if "connect c0 = Inr c" for c0 c
    using that by (auto simp: connect_def split: option.splits)
  then show ?thesis
    by (auto simp: create_session_def Let_def logger_def Session_def utcnow_def update_new_key
        split: sum.splits)
qed

theorem create_session_contract_witness:
  "create_session (default_config ''key'') example_filesystem example_clock (\<lambda>opts. unconnected_client)
       ''session-t1'' ''/tmp/w'' empty_options (manager example_server)
     = (Inl (ValueError ''Session session-t1 already exists''), manager example_server)
   \<and> create_session ((default_config ''key'')\<lparr>max_concurrent := 1\<rparr>) example_filesystem
       example_clock (\<lambda>opts. unconnected_client) ''session-t2'' ''/tmp/w'' empty_options
       (manager example_server)
     = (Inl (RuntimeError ''Maximum concurrent sessions (1) reached''), manager example_server)
   \<and> create_session (default_config ''key'') example_filesystem example_clock (\<lambda>opts. unconnected_client)
       ''session-t2'' ''/nowhere'' empty_options empty_manager
     = (Inl (ValueError ''Workspace directory does not exist: /nowhere''), empty_manager)
   \<and> fst (create_session (default_config ''key'') example_filesystem example_clock
            (\<lambda>opts. broken_client) ''session-t2'' ''/tmp/w'' empty_options empty_manager)
     = Inl (OtherError ''no backend'')
   \<and> sessions (snd (create_session (default_config ''key'') example_filesystem example_clock
            (\<lambda>opts. broken_client) ''session-t2'' ''/tmp/w'' empty_options empty_manager))
     = []
   \<and> (\<exists>s. fst (create_session (default_config ''key'') example_filesystem example_clock
                (\<lambda>opts. unconnected_client) ''session-t2'' ''/tmp/w'' empty_options empty_manager)
            = Inr s
          \<and> connected (client s)
          \<and> sessions (snd (create_session (default_config ''key'') example_filesystem example_clock
                (\<lambda>opts. unconnected_client) ''session-t2'' ''/tmp/w'' empty_options empty_manager))
            = [(''session-t2'', s)])"
proof -
  have 1: "map_of (sessions (manager example_server)) ''session-t1'' \<noteq> None"
    by (simp add: example_server_def)
  have 2: "map_of (sessions (manager example_server)) ''session-t2'' = None
           \<and> max_concurrent ((default_config ''key'')\<lparr>max_concurrent := 1\<rparr>)
               \<le> int (length (sessions (manager example_server)))"
    by (simp add: example_server_def)
  have 3: "map_of (sessions empty_manager) ''session-t2'' = None
           \<and> int (length (sessions empty_manager)) < max_concurrent (default_config ''key'')
           \<and> \<not> path_exists example_filesystem (resolve example_filesystem ''/nowhere'')"
    by (simp add: empty_manager_def default_config_def example_filesystem_def)
  have 4: "map_of (sessions empty_manager) ''session-t2'' = None
           \<and> int (length (sessions empty_manager)) < max_concurrent (default_config ''key'')
           \<and> path_exists example_filesystem (resolve example_filesystem ''/tmp/w'')"
    by (simp add: empty_manager_def default_config_def example_filesystem_def)
  have b: "connect broken_client = Inl (OtherError ''no backend'')"
    by (simp add: connect_def broken_client_def)
  have u: "connect unconnected_client = Inr (unconnected_client\<lparr>connected := True\<rparr>)"
    by (simp add: connect_def unconnected_client_def example_client_def)
  have r1: "create_session (default_config ''key'') example_filesystem example_clock
                (\<lambda>opts. unconnected_client) ''session-t1'' ''/tmp/w'' empty_options
                (manager example_server)
              = (Inl (ValueError ''Session session-t1 already exists''), manager example_server)"
    using create_session_contract [where m = "manager example_server" and sid = "''session-t1''"
        and cfg = "default_config ''key''" and fs = example_filesystem and now = example_clock
        and new_client = "\<lambda>opts. unconnected_client" and ws = "''/tmp/w''"
        and opts = empty_options, THEN conjunct1, THEN mp, OF 1]
    by simp
  have r2: "create_session ((default_config ''key'')\<lparr>max_concurrent := 1\<rparr>) example_filesystem
                example_clock (\<lambda>opts. unconnected_client) ''session-t2'' ''/tmp/w'' empty_options
                (manager example_server)
              = (Inl (RuntimeError ''Maximum concurrent sessions (1) reached''),
                 manager example_server)"
    using create_session_contract [where m = "manager example_server" and sid = "''session-t2''"
        and cfg = "(default_config ''key'')\<lparr>max_concurrent := 1\<rparr>" and fs = example_filesystem
        and now = example_clock and new_client = "\<lambda>opts. unconnected_client"
        and ws = "''/tmp/w''" and opts = empty_options,
        THEN conjunct2, THEN conjunct1, THEN mp, OF 2]
    by (simp add: str_int_def str_nat.simps digit_char_def)
  have r3: "create_session (default_config ''key'') example_filesystem example_clock
                (\<lambda>opts. unconnected_client) ''session-t2'' ''/nowhere'' empty_options empty_manager
              = (Inl (ValueError ''Workspace directory does not exist: /nowhere''), empty_manager)"
    using create_session_contract [where m = empty_manager and sid = "''session-t2''"
        and cfg = "default_config ''key''" and fs = example_filesystem and now = example_clock
        and new_client = "\<lambda>opts. unconnected_client" and ws = "''/nowhere''"
        and opts = empty_options,
        THEN conjunct2, THEN conjunct2, THEN conjunct1, THEN mp, OF 3]
    by simp
  have r4: "fst (create_session (default_config ''key'') example_filesystem example_clock
                  (\<lambda>opts. broken_client) ''session-t2'' ''/tmp/w'' empty_options empty_manager)
              = Inl (OtherError ''no backend'')
            \<and> sessions (snd (create_session (default_config ''key'') example_filesystem
                  example_clock (\<lambda>opts. broken_client) ''session-t2'' ''/tmp/w'' empty_options
                  empty_manager))
              = []"
    using create_session_contract [where m = empty_manager and sid = "''session-t2''"
        and cfg = "default_config ''key''" and fs = example_filesystem and now = example_clock
        and new_client = "\<lambda>opts. broken_client" and ws = "''/tmp/w''"
        and opts = empty_options,
        THEN conjunct2, THEN conjunct2, THEN conjunct2, THEN mp, OF 4]
    by (simp add: b empty_manager_def)
  have r5: "\<exists>s. fst (create_session (default_config ''key'') example_filesystem example_clock
                (\<lambda>opts. unconnected_client) ''session-t2'' ''/tmp/w'' empty_options empty_manager)
            = Inr s
          \<and> connected (client s)
          \<and> sessions (snd (create_session (default_config ''key'') example_filesystem example_clock
                (\<lambda>opts. unconnected_client) ''session-t2'' ''/tmp/w'' empty_options empty_manager))
            = [(''session-t2'', s)]"
    using create_session_contract [where m = empty_manager and sid = "''session-t2''"
        and cfg = "default_config ''key''" and fs = example_filesystem and now = example_clock
        and new_client = "\<lambda>opts. unconnected_client" and ws = "''/tmp/w''"
        and opts = empty_options,
        THEN conjunct2, THEN conjunct2, THEN conjunct2, THEN mp, OF 4]
    by (auto simp: u empty_manager_def)
  show ?thesis
    using r1 r2 r3 r4 r5 by (intro conjI) simp_all
qed

section \<open>Server: properties\<close>

text \<open>
  Claim C10. For a registered task whose session is live: when the client's
  \<^verbatim>\<open>interrupt\<close> returns, the endpoint answers with status INTERRUPTED and records
  INTERRUPTED for the task in the registry; when it raises, the endpoint answers with
  HTTP 500 and the server's state, the task's recorded status included, is unchanged.
\<close>

theorem interrupt_status:
  assumes "running_tasks sv tid = Some info"
    "get_session (info_session_id info) (manager sv) = Some s"
  shows "(interrupt_raises (client s) = None \<longrightarrow>
            fst (interrupt_task now tid sv)
              = Inr \<lparr>response_task_id = tid, response_status = INTERRUPTED,
                     interrupted_at = now (server_clock_reads sv)\<rparr>
            \<and> running_tasks (snd (interrupt_task now tid sv))
              = (running_tasks sv)(tid \<mapsto> info\<lparr>info_status := INTERRUPTED\<rparr>))
       \<and> (\<forall>e. interrupt_raises (client s) = Some e \<longrightarrow>
            fst (interrupt_task now tid sv)
              = Inl (HTTPException 500 (''Failed to interrupt task: '' @ str_exn e))
            \<and> snd (interrupt_task now tid sv) = sv)"
  using assms by (simp add: interrupt_task_def interrupt_def utcnow_def)

theorem interrupt_status_witness:
  "fst (interrupt_task example_clock ''t1'' example_server)
     = Inr \<lparr>response_task_id = ''t1'', response_status = INTERRUPTED, interrupted_at = 0\<rparr>
   \<and> running_tasks (snd (interrupt_task example_clock ''t1'' example_server)) ''t1''
     = Some \<lparr>info_session_id = ''session-t1'', info_status = INTERRUPTED, info_created_at = 0\<rparr>
   \<and> fst (interrupt_task example_clock ''t1'' unreachable_server)
     = Inl (HTTPException 500 ''Failed to interrupt task: not connected'')
   \<and> snd (interrupt_task example_clock ''t1'' unreachable_server) = unreachable_server"
  using interrupt_status [of example_server "''t1''"
          "\<lparr>info_session_id = ''session-t1'', info_status = RUNNING, info_created_at = 0\<rparr>"
          "example_session\<lparr>event_queues := Map.empty\<rparr>" example_clock]
        interrupt_status [of unreachable_server "''t1''"
          "\<lparr>info_session_id = ''session-t1'', info_status = RUNNING, info_created_at = 0\<rparr>"
          "example_session\<lparr>client := example_client
              \<lparr>interrupt_raises := Some (OtherError ''not connected'')\<rparr>\<rparr>" example_clock]
  by (simp add: example_server_def unreachable_server_def get_session_def example_session_def
      example_client_def example_clock_def)

end
